theory Spec2Isabelle
  imports Main "HOL-Library.Word"
begin

section \<open>The segment-assign interceptor of the streaming node\<close>

text \<open>
  Source: \<^verbatim>\<open>internal/streamingnode/server/wal/interceptors/segment/segment_assign_interceptor.go\<close>.
  The interceptor sits in the append chain of a write-ahead log. For every message it
  either talks to the segment assignment manager of the physical channel, or hands the
  message to the next append operation, or both.
\<close>

subsection \<open>Data\<close>

type_synonym int64 = "64 word"
type_synonym uint64 = "64 word"

text \<open>
  The message types of \<^verbatim>\<open>pkg/streaming/util/message\<close>. The interceptor's switch names six
  of them; every other one falls to the \<^verbatim>\<open>default\<close> branch.
\<close>

datatype message_type =
    MessageTypeUnknown
  | MessageTypeTimeTick
  | MessageTypeInsert
  | MessageTypeDelete
  | MessageTypeFlush
  | MessageTypeCreateCollection
  | MessageTypeDropCollection
  | MessageTypeCreatePartition
  | MessageTypeDropPartition
  | MessageTypeManualFlush
  | MessageTypeCreateSegment
  | MessageTypeImport
  | MessageTypeSchemaChange
  | MessageTypeBeginTxn
  | MessageTypeCommitTxn
  | MessageTypeRollbackTxn
  | MessageTypeTxn

text \<open>
  Errors are values. \<open>Wrapped\<close> is an error that wraps another one (Go's \<^verbatim>\<open>%w\<close>), so that
  \<^verbatim>\<open>errors.Is\<close> has a chain to walk. \<open>StatusUnrecoverable\<close> and \<open>StatusInner\<close> are the two
  streaming status errors the interceptor builds; each keeps its format string and the
  argument formatted into it.
\<close>

datatype error =
    ErrTimeTickTooOld
  | ErrTooLargeInsert
  | ErrFencedAssign
  | ErrCollectionNotFound
  | ErrPartitionNotFound
  | ErrRedo
  | DeadlineExceeded
  | Canceled
  | ErrUnexpectedMessage
  | ErrAppendFailure nat
  | StatusUnrecoverable string int
  | StatusInner string error
  | Wrapped string error

fun errors_Is :: "error \<Rightarrow> error \<Rightarrow> bool" where
  "errors_Is (Wrapped s e) target = (Wrapped s e = target \<or> errors_Is e target)"
| "errors_Is e target = (e = target)"

record segment_assignment =
  SegmentId :: int64

record partition_segment_assignment =
  PartitionId :: int64
  Rows :: uint64
  BinarySize :: uint64
  SegmentAssignment :: "segment_assignment option"

datatype message_header =
    CreateCollectionMessageHeader int64 "int64 list"
  | DropCollectionMessageHeader int64
  | CreatePartitionMessageHeader int64 int64
  | DropPartitionMessageHeader int64 int64
  | InsertMessageHeader int64 "partition_segment_assignment list"
  | ManualFlushMessageHeader int64 uint64
  | OtherMessageHeader

record message =
  MessageType :: message_type
  Version :: nat
  VChannel :: string
  TimeTick :: uint64
  EstimateSize :: int
  Header :: message_header

type_synonym message_id = nat
type_synonym txn_session = nat

record Context =
  TxnSession :: "txn_session option"
  Done :: bool

record insert_metrics =
  im_Rows :: uint64
  im_BinarySize :: uint64

record assign_segment_request =
  req_CollectionID :: int64
  req_PartitionID :: int64
  req_InsertMetrics :: insert_metrics
  req_TimeTick :: uint64
  req_TxnSession :: "txn_session option"

record assign_segment_result =
  res_SegmentID :: int64
  res_Handle :: nat

text \<open>
  The manager lives in another package. The interceptor sees it only through the
  methods it calls, so the model takes them as a record of operations over an
  arbitrary manager state \<open>'m\<close>. \<open>Ack\<close> is the method of the assign result.
\<close>

record 'm manager_ops =
  NewCollection :: "int64 \<Rightarrow> string \<Rightarrow> int64 list \<Rightarrow> 'm \<Rightarrow> 'm"
  NewPartition :: "int64 \<Rightarrow> int64 \<Rightarrow> 'm \<Rightarrow> error option \<times> 'm"
  RemoveCollection :: "Context \<Rightarrow> int64 \<Rightarrow> 'm \<Rightarrow> error option \<times> 'm"
  RemovePartition :: "Context \<Rightarrow> int64 \<Rightarrow> int64 \<Rightarrow> 'm \<Rightarrow> error option \<times> 'm"
  AssignSegment :: "Context \<Rightarrow> assign_segment_request \<Rightarrow> 'm \<Rightarrow> (error + assign_segment_result) \<times> 'm"
  SealAndFenceSegmentUntil :: "Context \<Rightarrow> int64 \<Rightarrow> uint64 \<Rightarrow> 'm \<Rightarrow> (error + int64 list) \<times> 'm"
  Ack :: "assign_segment_result \<Rightarrow> 'm \<Rightarrow> 'm"

text \<open>
  What a call of the interceptor can change: the manager, the log behind the append
  operation, and the extra response that hangs on the append context
  (\<^verbatim>\<open>utility.ModifyAppendResultExtra\<close>), here the segment ids of a
  \<^verbatim>\<open>ManualFlushExtraResponse\<close> or \<open>None\<close> for the nil pointer.
\<close>

record ('m, 'w) world =
  mgr :: 'm
  wal :: 'w
  extra :: "int64 list option"

type_synonym 'w append_op = "Context \<Rightarrow> message \<Rightarrow> 'w \<Rightarrow> (error + message_id) \<times> 'w"

definition call_append ::
  "'w append_op \<Rightarrow> Context \<Rightarrow> message \<Rightarrow> ('m, 'w) world \<Rightarrow> (error + message_id) \<times> ('m, 'w) world" where
  "call_append appendOp ctx msg w =
     (case appendOp ctx msg (wal w) of (r, wal') \<Rightarrow> (r, w\<lparr>wal := wal'\<rparr>))"

subsection \<open>Message conversions\<close>

text \<open>
  \<^verbatim>\<open>message.AsMutable...Message\<close> fails on a message of another type or version, or whose
  header does not decode to the expected header.
\<close>

definition AsMutableCreateCollectionMessageV1 :: "message \<Rightarrow> error + (int64 \<times> int64 list)" where
  "AsMutableCreateCollectionMessageV1 msg =
     (if MessageType msg = MessageTypeCreateCollection \<and> Version msg = 1 then
        (case Header msg of CreateCollectionMessageHeader cid pids \<Rightarrow> Inr (cid, pids)
         | _ \<Rightarrow> Inl ErrUnexpectedMessage)
      else Inl ErrUnexpectedMessage)"

definition AsMutableDropCollectionMessageV1 :: "message \<Rightarrow> error + int64" where
  "AsMutableDropCollectionMessageV1 msg =
     (if MessageType msg = MessageTypeDropCollection \<and> Version msg = 1 then
        (case Header msg of DropCollectionMessageHeader cid \<Rightarrow> Inr cid
         | _ \<Rightarrow> Inl ErrUnexpectedMessage)
      else Inl ErrUnexpectedMessage)"

definition AsMutableCreatePartitionMessageV1 :: "message \<Rightarrow> error + (int64 \<times> int64)" where
  "AsMutableCreatePartitionMessageV1 msg =
     (if MessageType msg = MessageTypeCreatePartition \<and> Version msg = 1 then
        (case Header msg of CreatePartitionMessageHeader cid pid \<Rightarrow> Inr (cid, pid)
         | _ \<Rightarrow> Inl ErrUnexpectedMessage)
      else Inl ErrUnexpectedMessage)"

definition AsMutableDropPartitionMessageV1 :: "message \<Rightarrow> error + (int64 \<times> int64)" where
  "AsMutableDropPartitionMessageV1 msg =
     (if MessageType msg = MessageTypeDropPartition \<and> Version msg = 1 then
        (case Header msg of DropPartitionMessageHeader cid pid \<Rightarrow> Inr (cid, pid)
         | _ \<Rightarrow> Inl ErrUnexpectedMessage)
      else Inl ErrUnexpectedMessage)"

definition AsMutableInsertMessageV1 ::
  "message \<Rightarrow> error + (int64 \<times> partition_segment_assignment list)" where
  "AsMutableInsertMessageV1 msg =
     (if MessageType msg = MessageTypeInsert \<and> Version msg = 1 then
        (case Header msg of InsertMessageHeader cid parts \<Rightarrow> Inr (cid, parts)
         | _ \<Rightarrow> Inl ErrUnexpectedMessage)
      else Inl ErrUnexpectedMessage)"

definition AsMutableManualFlushMessageV2 :: "message \<Rightarrow> error + (int64 \<times> uint64)" where
  "AsMutableManualFlushMessageV2 msg =
     (if MessageType msg = MessageTypeManualFlush \<and> Version msg = 2 then
        (case Header msg of ManualFlushMessageHeader cid ts \<Rightarrow> Inr (cid, ts)
         | _ \<Rightarrow> Inl ErrUnexpectedMessage)
      else Inl ErrUnexpectedMessage)"

subsection \<open>Collection and partition handlers\<close>

text \<open>
  The result of a handler is the pair the Go function returns, as a sum: \<open>Inl\<close> the
  error, \<open>Inr\<close> the message id. (\<^verbatim>\<open>handleCreateCollection\<close> returns
  \<^verbatim>\<open>msgID, err\<close> of the failed append; the id next to an error is dropped here.)
\<close>

definition handleCreateCollection ::
  "'m manager_ops \<Rightarrow> 'w append_op \<Rightarrow> Context \<Rightarrow> message \<Rightarrow> ('m, 'w) world
     \<Rightarrow> (error + message_id) \<times> ('m, 'w) world" where
  "handleCreateCollection ops appendOp ctx msg w =
     (case AsMutableCreateCollectionMessageV1 msg of
        Inl err \<Rightarrow> (Inl err, w)
      | Inr (cid, pids) \<Rightarrow>
          (case call_append appendOp ctx msg w of
             (Inl err, w1) \<Rightarrow> (Inl err, w1)
           | (Inr msgID, w1) \<Rightarrow>
               (Inr msgID, w1\<lparr>mgr := NewCollection ops cid (VChannel msg) pids (mgr w1)\<rparr>)))"

definition handleDropCollection ::
  "'m manager_ops \<Rightarrow> 'w append_op \<Rightarrow> Context \<Rightarrow> message \<Rightarrow> ('m, 'w) world
     \<Rightarrow> (error + message_id) \<times> ('m, 'w) world" where
  "handleDropCollection ops appendOp ctx msg w =
     (case AsMutableDropCollectionMessageV1 msg of
        Inl err \<Rightarrow> (Inl err, w)
      | Inr cid \<Rightarrow>
          (case RemoveCollection ops ctx cid (mgr w) of
             (Some err, m1) \<Rightarrow> (Inl err, w\<lparr>mgr := m1\<rparr>)
           | (None, m1) \<Rightarrow> call_append appendOp ctx msg (w\<lparr>mgr := m1\<rparr>)))"

definition handleCreatePartition ::
  "'m manager_ops \<Rightarrow> 'w append_op \<Rightarrow> Context \<Rightarrow> message \<Rightarrow> ('m, 'w) world
     \<Rightarrow> (error + message_id) \<times> ('m, 'w) world" where
  "handleCreatePartition ops appendOp ctx msg w =
     (case AsMutableCreatePartitionMessageV1 msg of
        Inl err \<Rightarrow> (Inl err, w)
      | Inr (cid, pid) \<Rightarrow>
          (case call_append appendOp ctx msg w of
             (Inl err, w1) \<Rightarrow> (Inl err, w1)
           | (Inr msgID, w1) \<Rightarrow>
               (Inr msgID, w1\<lparr>mgr := snd (NewPartition ops cid pid (mgr w1))\<rparr>)))"

definition handleDropPartition ::
  "'m manager_ops \<Rightarrow> 'w append_op \<Rightarrow> Context \<Rightarrow> message \<Rightarrow> ('m, 'w) world
     \<Rightarrow> (error + message_id) \<times> ('m, 'w) world" where
  "handleDropPartition ops appendOp ctx msg w =
     (case AsMutableDropPartitionMessageV1 msg of
        Inl err \<Rightarrow> (Inl err, w)
      | Inr (cid, pid) \<Rightarrow>
          (case RemovePartition ops ctx cid pid (mgr w) of
             (Some err, m1) \<Rightarrow> (Inl err, w\<lparr>mgr := m1\<rparr>)
           | (None, m1) \<Rightarrow> call_append appendOp ctx msg (w\<lparr>mgr := m1\<rparr>)))"

subsection \<open>The insert handler\<close>

text \<open>
  The loop over the partitions of the insert header. Every successful assignment
  defers \<^verbatim>\<open>result.Ack()\<close> and writes the segment id into its partition entry; the first
  failing assignment returns at once. The function returns the error or the updated
  partition entries, the deferred results in the order in which the deferred calls run
  (last deferred first), and the manager after the calls of \<^verbatim>\<open>AssignSegment\<close>.
\<close>

definition insert_request :: "Context \<Rightarrow> message \<Rightarrow> int64 \<Rightarrow> partition_segment_assignment \<Rightarrow> assign_segment_request" where
  "insert_request ctx msg cid p =
     \<lparr>req_CollectionID = cid,
      req_PartitionID = PartitionId p,
      req_InsertMetrics = \<lparr>im_Rows = Rows p, im_BinarySize = word_of_int (EstimateSize msg)\<rparr>,
      req_TimeTick = TimeTick msg,
      req_TxnSession = TxnSession ctx\<rparr>"

fun assign_partitions ::
  "'m manager_ops \<Rightarrow> Context \<Rightarrow> message \<Rightarrow> int64 \<Rightarrow> partition_segment_assignment list \<Rightarrow> 'm
     \<Rightarrow> (error + partition_segment_assignment list) \<times> assign_segment_result list \<times> 'm" where
  "assign_partitions ops ctx msg cid [] m = (Inr [], [], m)"
| "assign_partitions ops ctx msg cid (p # ps) m =
     (case AssignSegment ops ctx (insert_request ctx msg cid p) m of
        (Inl err, m1) \<Rightarrow>
          (if errors_Is err ErrTimeTickTooOld then (Inl ErrRedo, [], m1)
           else if errors_Is err ErrTooLargeInsert then
             (Inl (StatusUnrecoverable ''insert too large, binary size: %d'' (EstimateSize msg)), [], m1)
           else (Inl err, [], m1))
      | (Inr result, m1) \<Rightarrow>
          (case assign_partitions ops ctx msg cid ps m1 of
             (Inl err, deferred, m2) \<Rightarrow> (Inl err, deferred @ [result], m2)
           | (Inr ps', deferred, m2) \<Rightarrow>
               (Inr (p\<lparr>SegmentAssignment := Some \<lparr>SegmentId = res_SegmentID result\<rparr>\<rparr> # ps'),
                deferred @ [result], m2)))"

definition run_deferred :: "'m manager_ops \<Rightarrow> assign_segment_result list \<Rightarrow> 'm \<Rightarrow> 'm" where
  "run_deferred ops deferred m = fold (Ack ops) deferred m"

definition handleInsertMessage ::
  "'m manager_ops \<Rightarrow> 'w append_op \<Rightarrow> Context \<Rightarrow> message \<Rightarrow> ('m, 'w) world
     \<Rightarrow> (error + message_id) \<times> ('m, 'w) world" where
  "handleInsertMessage ops appendOp ctx msg w =
     (case AsMutableInsertMessageV1 msg of
        Inl err \<Rightarrow> (Inl err, w)
      | Inr (cid, parts) \<Rightarrow>
          (case assign_partitions ops ctx msg cid parts (mgr w) of
             (Inl err, deferred, m1) \<Rightarrow> (Inl err, w\<lparr>mgr := run_deferred ops deferred m1\<rparr>)
           | (Inr parts', deferred, m1) \<Rightarrow>
               (case call_append appendOp ctx (msg\<lparr>Header := InsertMessageHeader cid parts'\<rparr>)
                       (w\<lparr>mgr := m1\<rparr>) of
                  (r, w2) \<Rightarrow> (r, w2\<lparr>mgr := run_deferred ops deferred (mgr w2)\<rparr>))))"

subsection \<open>The manual flush handler\<close>

definition modify_extra :: "int64 list option \<Rightarrow> int64 list \<Rightarrow> int64 list option" where
  "modify_extra old segmentIDs =
     (case old of None \<Rightarrow> Some segmentIDs | Some ids \<Rightarrow> Some (ids @ segmentIDs))"

definition handleManualFlushMessage ::
  "'m manager_ops \<Rightarrow> 'w append_op \<Rightarrow> Context \<Rightarrow> message \<Rightarrow> ('m, 'w) world
     \<Rightarrow> (error + message_id) \<times> ('m, 'w) world" where
  "handleManualFlushMessage ops appendOp ctx msg w =
     (case AsMutableManualFlushMessageV2 msg of
        Inl err \<Rightarrow> (Inl err, w)
      | Inr (cid, flushTs) \<Rightarrow>
          (case SealAndFenceSegmentUntil ops ctx cid flushTs (mgr w) of
             (Inl err, m1) \<Rightarrow>
               (Inl (StatusInner ''segment seal failure with error: %s'' err), w\<lparr>mgr := m1\<rparr>)
           | (Inr segmentIDs, m1) \<Rightarrow>
               (let w1 = w\<lparr>mgr := m1, extra := modify_extra (extra w) segmentIDs\<rparr> in
                if length segmentIDs > 0 then (Inl ErrRedo, w1)
                else (case call_append appendOp ctx msg w1 of
                        (Inl err, w2) \<Rightarrow> (Inl err, w2)
                      | (Inr msgID, w2) \<Rightarrow> (Inr msgID, w2)))))"

subsection \<open>Dispatch\<close>

definition DoAppend ::
  "'m manager_ops \<Rightarrow> 'w append_op \<Rightarrow> Context \<Rightarrow> message \<Rightarrow> ('m, 'w) world
     \<Rightarrow> (error + message_id) \<times> ('m, 'w) world" where
  "DoAppend ops appendOp ctx msg w =
     (case MessageType msg of
        MessageTypeCreateCollection \<Rightarrow> handleCreateCollection ops appendOp ctx msg w
      | MessageTypeDropCollection \<Rightarrow> handleDropCollection ops appendOp ctx msg w
      | MessageTypeCreatePartition \<Rightarrow> handleCreatePartition ops appendOp ctx msg w
      | MessageTypeDropPartition \<Rightarrow> handleDropPartition ops appendOp ctx msg w
      | MessageTypeInsert \<Rightarrow> handleInsertMessage ops appendOp ctx msg w
      | MessageTypeManualFlush \<Rightarrow> handleManualFlushMessage ops appendOp ctx msg w
      | _ \<Rightarrow> call_append appendOp ctx msg w)"

subsection \<open>Recovery of the manager\<close>

text \<open>
  \<^verbatim>\<open>recoverPChannelManager\<close> builds a backoff timer and loops: every failed recovery takes
  the next interval from the timer and waits for it or for the interceptor's context,
  whichever comes first. Durations are nanoseconds, as \<^verbatim>\<open>time.Duration\<close> is. The
  multiplier is the float \<^verbatim>\<open>2.0\<close> in the source; its value is kept as an integer.
\<close>

type_synonym duration = int

definition Millisecond :: duration where
  "Millisecond = 1000000"

definition Second :: duration where
  "Second = 1000000000"

record backoff_config =
  InitialInterval :: duration
  Multiplier :: int
  MaxInterval :: duration

record backoff_timer_config =
  Default :: duration
  Backoff :: backoff_config

text \<open>
  The timer is \<^verbatim>\<open>typeutil.BackoffTimer\<close>, of another package: the loop sees its three
  methods.
\<close>

record 't timer_ops =
  NewBackoffTimer :: "backoff_timer_config \<Rightarrow> 't"
  EnableBackoff :: "'t \<Rightarrow> 't"
  NextTimer :: "'t \<Rightarrow> duration \<times> 't"

definition recover_timer_config :: backoff_timer_config where
  "recover_timer_config =
     \<lparr>Default = Second,
      Backoff = \<lparr>InitialInterval = 10 * Millisecond, Multiplier = 2, MaxInterval = Second\<rparr>\<rparr>"

text \<open>
  What the loop meets, by the value of its counter: the outcome of the call of
  \<^verbatim>\<open>RecoverPChannelSegmentAllocManager\<close> and, after a failure, which case of the
  \<^verbatim>\<open>select\<close> is taken.
\<close>

datatype wait_outcome = CtxDone | TimerFired

record 'm recover_env =
  attempt :: "nat \<Rightarrow> error + 'm"
  wait :: "nat \<Rightarrow> wait_outcome"

text \<open>
  What the loop does, in order: the warning that carries the retry counter and the
  interval it is about to wait, the registration with the seal inspector, and the
  value set into the future \<^verbatim>\<open>assignManager\<close> (\<open>None\<close> is \<^verbatim>\<open>Set(nil)\<close>).
\<close>

datatype 'm recover_event =
    WarnRetry nat duration
  | RegisterPChannelManager 'm
  | SetAssignManager "'m option"

text \<open>
  The loop has no bound of its own. The first argument is fuel: \<open>None\<close> says that the
  loop is still running when the fuel is used up.
\<close>

fun recover_loop ::
  "'t timer_ops \<Rightarrow> 'm recover_env \<Rightarrow> nat \<Rightarrow> nat \<Rightarrow> 't \<Rightarrow> 'm recover_event list option" where
  "recover_loop T env 0 counter timer = None"
| "recover_loop T env (Suc fuel) counter timer =
     (case attempt env counter of
        Inl err \<Rightarrow>
          (case NextTimer T timer of
             (d, timer') \<Rightarrow>
               (case wait env counter of
                  CtxDone \<Rightarrow> Some [WarnRetry counter d, SetAssignManager None]
                | TimerFired \<Rightarrow>
                    map_option (Cons (WarnRetry counter d))
                      (recover_loop T env fuel (Suc counter) timer')))
      | Inr pm \<Rightarrow> Some [RegisterPChannelManager pm, SetAssignManager (Some pm)])"

definition recoverPChannelManager ::
  "'t timer_ops \<Rightarrow> 'm recover_env \<Rightarrow> nat \<Rightarrow> 'm recover_event list option" where
  "recoverPChannelManager T env fuel =
     recover_loop T env fuel 0 (EnableBackoff T (NewBackoffTimer T recover_timer_config))"

text \<open>
  Modelled from the spec: \<^verbatim>\<open>typeutil.BackoffTimer\<close> is not among the sources. The spec
  gives the retry intervals as an exponential backoff "10 ms \<rightarrow> 1 s, \<times>2": the first
  interval is the initial one, each next one is the multiplier times the one before,
  and none is above the maximum. A timer whose backoff is not enabled hands out its
  default interval.
\<close>

record backoff_timer =
  bt_config :: backoff_timer_config
  bt_enabled :: bool
  bt_retries :: nat

definition backoff_interval :: "backoff_config \<Rightarrow> nat \<Rightarrow> duration" where
  "backoff_interval c n = min (InitialInterval c * Multiplier c ^ n) (MaxInterval c)"

definition spec_timer :: "backoff_timer timer_ops" where
  "spec_timer =
     \<lparr>NewBackoffTimer = (\<lambda>c. \<lparr>bt_config = c, bt_enabled = False, bt_retries = 0\<rparr>),
      EnableBackoff = (\<lambda>t. t\<lparr>bt_enabled := True\<rparr>),
      NextTimer = (\<lambda>t.
        if bt_enabled t
        then (backoff_interval (Backoff (bt_config t)) (bt_retries t), t\<lparr>bt_retries := Suc (bt_retries t)\<rparr>)
        else (Default (bt_config t), t))\<rparr>"

section \<open>The segment assignment manager\<close>

text \<open>
  The package \<^verbatim>\<open>manager\<close> (the type \<^verbatim>\<open>PChannelSegmentAllocManager\<close> and its methods) is
  not among the sources: only its test file is. Every definition of this section is
  modelled from the specification, sections 3 and 4, and says so. The model is
  sequential: one operation at a time on one manager. The write-ahead log, the id
  allocator, the transaction manager and the stats manager are collaborators; what the
  manager needs of them is part of the state \<open>pchannel_manager\<close> or of the
  environment \<open>manager_env\<close>. Their failures and the metastore are outside the model.
\<close>

subsection \<open>State\<close>

text \<open>Modelled from the spec: the states of a segment (section 3).\<close>

datatype segment_state = Pending | Growing | Sealed | Flushed

text \<open>
  Modelled from the spec: the attributes of a segment (section 3). The count of
  outstanding assignments is read off the manager's list of unacked results
  (\<open>outstanding\<close> below); the physical channel is the manager's own.
\<close>

record segment =
  seg_ID :: int64
  seg_CollectionID :: int64
  seg_PartitionID :: int64
  seg_VChannel :: string
  seg_State :: segment_state
  seg_MaxBinarySize :: nat
  seg_InsertedRows :: nat
  seg_InsertedBinarySize :: nat
  seg_CreateTimestamp :: uint64
  seg_TxnRefs :: "txn_session list"

text \<open>Modelled from the spec: the headers of the two messages the manager appends (section 6).\<close>

datatype wal_message =
    CreateSegmentMessage int64 int64 int64 nat
  | FlushSegmentMessage int64 int64 int64

text \<open>
  Modelled from the spec: the configuration knobs (section 6) and the time tick the
  log returns for its n-th append. The effective seal proportion is the fraction
  \<open>SealProportionNum / SealProportionDen\<close>.
\<close>

record manager_env =
  MaxBinarySize :: nat
  SealProportionNum :: nat
  SealProportionDen :: nat
  BinlogCounterThreshold :: nat
  WalTimeTick :: "nat \<Rightarrow> uint64"

text \<open>
  Modelled from the spec: the physical channel manager (section 3): the index from a
  collection to its virtual channel and partitions, the segments of all partition
  managers, the fence table, the watermark of each collection; and of the
  collaborators: the results not yet acked (handle and segment id), the next handle,
  the next id of the allocator, the messages appended to the log, the transactions
  still open, and the binlog counters of the stats manager.
\<close>

record pchannel_manager =
  collections :: "int64 \<rightharpoonup> (string \<times> int64 list)"
  segments :: "segment list"
  fence :: "int64 \<rightharpoonup> uint64"
  watermark :: "int64 \<rightharpoonup> uint64"
  unacked :: "(nat \<times> int64) list"
  next_handle :: nat
  next_segment_id :: int64
  wal_messages :: "wal_message list"
  open_txns :: "txn_session list"
  synced_binlogs :: "int64 \<Rightarrow> nat"

text \<open>Modelled from the spec: "Outstanding count = issued minus acked" (section 3).\<close>

definition outstanding :: "pchannel_manager \<Rightarrow> int64 \<Rightarrow> nat" where
  "outstanding m sid = length (filter (\<lambda>hs. snd hs = sid) (unacked m))"

text \<open>Modelled from the spec: a transaction that wrote to the segment is still open.\<close>

definition txn_open :: "pchannel_manager \<Rightarrow> segment \<Rightarrow> bool" where
  "txn_open m s \<longleftrightarrow> (\<exists>t \<in> set (seg_TxnRefs s). t \<in> set (open_txns m))"

text \<open>
  Modelled from the spec: "isFull(): returns true iff InsertedBinarySize \<ge> MaxBinarySize
  \<times> effectiveSealProportion" (section 4.1).
\<close>

definition isFull :: "manager_env \<Rightarrow> segment \<Rightarrow> bool" where
  "isFull env s \<longleftrightarrow>
     seg_InsertedBinarySize s * SealProportionDen env \<ge> seg_MaxBinarySize s * SealProportionNum env"

text \<open>
  Modelled from the spec: "shouldSealByStats: returns true iff the stats manager reports
  accumulated binlog increments above the configured threshold" (section 4.1).
\<close>

definition shouldSealByStats :: "manager_env \<Rightarrow> pchannel_manager \<Rightarrow> segment \<Rightarrow> bool" where
  "shouldSealByStats env m s \<longleftrightarrow> synced_binlogs m (seg_ID s) > BinlogCounterThreshold env"

text \<open>Modelled from the spec: \<^verbatim>\<open>UpdateOnSync(segID, delta)\<close> of the stats manager (section 4.4).\<close>

definition UpdateOnSync :: "int64 \<Rightarrow> nat \<Rightarrow> pchannel_manager \<Rightarrow> pchannel_manager" where
  "UpdateOnSync sid delta m =
     m\<lparr>synced_binlogs := (synced_binlogs m)(sid := synced_binlogs m sid + delta)\<rparr>"

text \<open>
  Modelled from the spec: the watermark of a collection is the last time tick seen for
  it (section 3): the largest of the ticks of its successful assignments and of the
  ticks the log returned for the announcements of its segments. A collection without
  an entry has watermark 0.
\<close>

definition watermark_of :: "pchannel_manager \<Rightarrow> int64 \<Rightarrow> uint64" where
  "watermark_of m cid = (case watermark m cid of None \<Rightarrow> 0 | Some t \<Rightarrow> t)"

definition see_tick :: "int64 \<Rightarrow> uint64 \<Rightarrow> pchannel_manager \<Rightarrow> pchannel_manager" where
  "see_tick cid t m = m\<lparr>watermark := (watermark m)(cid \<mapsto> max (watermark_of m cid) t)\<rparr>"

text \<open>
  Modelled from the spec: an append through the log; "the returned time-tick becomes
  CreateTimestamp" (section 4.2).
\<close>

definition wal_append :: "manager_env \<Rightarrow> wal_message \<Rightarrow> pchannel_manager \<Rightarrow> uint64 \<times> pchannel_manager" where
  "wal_append env msg m =
     (WalTimeTick env (length (wal_messages m)), m\<lparr>wal_messages := wal_messages m @ [msg]\<rparr>)"

text \<open>Modelled from the spec: a change of one segment, found by its id.\<close>

definition update_segment :: "int64 \<Rightarrow> (segment \<Rightarrow> segment) \<Rightarrow> pchannel_manager \<Rightarrow> pchannel_manager" where
  "update_segment sid f m =
     m\<lparr>segments := map (\<lambda>s. if seg_ID s = sid then f s else s) (segments m)\<rparr>"

text \<open>
  Modelled from the spec: the seal marks a growing segment Sealed in memory at once
  (section 4.2, sealing algorithm); no other state moves.
\<close>

definition mark_sealed :: "(segment \<Rightarrow> bool) \<Rightarrow> pchannel_manager \<Rightarrow> pchannel_manager" where
  "mark_sealed P m =
     m\<lparr>segments := map (\<lambda>s. if seg_State s = Growing \<and> P s then s\<lparr>seg_State := Sealed\<rparr> else s)
                      (segments m)\<rparr>"

text \<open>
  Modelled from the spec: the deferred step of the seal. The FlushSegment message is
  announced only when "outstanding=0 and the set of referencing transactions is empty",
  that is when "no referencing transaction is open" (sections 2 and 4.2).
\<close>

definition ready_to_flush :: "pchannel_manager \<Rightarrow> segment \<Rightarrow> bool" where
  "ready_to_flush m s \<longleftrightarrow>
     seg_State s = Sealed \<and> outstanding m (seg_ID s) = 0 \<and> \<not> txn_open m s"

definition announce_flush :: "manager_env \<Rightarrow> segment \<Rightarrow> pchannel_manager \<Rightarrow> pchannel_manager" where
  "announce_flush env s m =
     (case wal_append env (FlushSegmentMessage (seg_CollectionID s) (seg_PartitionID s) (seg_ID s)) m of
        (t, m1) \<Rightarrow> see_tick (seg_CollectionID s) t m1)"

text \<open>
  Modelled from the spec: \<^verbatim>\<open>TryToSealWaitedSegment\<close> "re-examines segments previously
  marked Sealed but deferred for outstanding/txn reasons" (section 4.3): it goes
  through the segments in order, announces the flush of each one that is ready and
  moves it to Flushed.
\<close>

definition flush_step ::
  "manager_env \<Rightarrow> segment \<Rightarrow> segment list \<times> pchannel_manager \<Rightarrow> segment list \<times> pchannel_manager" where
  "flush_step env s acc =
     (if ready_to_flush (snd acc) s
      then (fst acc @ [s\<lparr>seg_State := Flushed\<rparr>], announce_flush env s (snd acc))
      else (fst acc @ [s], snd acc))"

definition TryToSealWaitedSegment :: "manager_env \<Rightarrow> pchannel_manager \<Rightarrow> pchannel_manager" where
  "TryToSealWaitedSegment env m =
     (case fold (flush_step env) (segments m) ([], m) of (segs, m1) \<Rightarrow> m1\<lparr>segments := segs\<rparr>)"

text \<open>
  Modelled from the spec: the hint of \<^verbatim>\<open>TryToSealSegments\<close> (section 8, scenario 4) names
  a collection, a partition and a segment.
\<close>

record segment_belongs =
  sb_CollectionID :: int64
  sb_PartitionID :: int64
  sb_SegmentID :: int64

definition hinted :: "segment_belongs list \<Rightarrow> segment \<Rightarrow> bool" where
  "hinted hints s \<longleftrightarrow>
     hints = [] \<or>
     (\<exists>h \<in> set hints. sb_CollectionID h = seg_CollectionID s \<and> sb_PartitionID h = seg_PartitionID s)"

text \<open>
  Modelled from the spec: \<^verbatim>\<open>TryToSealSegments\<close> is "non-blocking; collects candidates and
  announces flushes for those ready" (section 4.3). The candidates are the growing
  segments (of the hinted partitions, when there are hints) that are capacity-full or
  that the stats policy wants sealed (section 4.2); the seals forced by a partition
  drop or by a fence are marked by those operations themselves. The flushes announced
  are those of every sealed segment that is ready.
\<close>

definition TryToSealSegments ::
  "manager_env \<Rightarrow> segment_belongs list \<Rightarrow> pchannel_manager \<Rightarrow> pchannel_manager" where
  "TryToSealSegments env hints m =
     TryToSealWaitedSegment env
       (mark_sealed (\<lambda>s. hinted hints s \<and> (isFull env s \<or> shouldSealByStats env m s)) m)"

text \<open>
  Modelled from the spec: \<^verbatim>\<open>IsNoWaitSeal\<close> is "true iff no segment is in
  Sealed-but-not-Flushed state" (section 4.3).
\<close>

definition IsNoWaitSeal :: "pchannel_manager \<Rightarrow> bool" where
  "IsNoWaitSeal m \<longleftrightarrow> (\<forall>s \<in> set (segments m). seg_State s \<noteq> Sealed)"

subsection \<open>Assignment\<close>

text \<open>
  Modelled from the spec: the index lookup of \<^verbatim>\<open>AssignSegment\<close>, which "validates
  collection/partition exist" (section 4.3).
\<close>

definition lookup_partition :: "pchannel_manager \<Rightarrow> int64 \<Rightarrow> int64 \<Rightarrow> error + string" where
  "lookup_partition m cid pid =
     (case collections m cid of
        None \<Rightarrow> Inl ErrCollectionNotFound
      | Some (vch, pids) \<Rightarrow> if pid \<in> set pids then Inr vch else Inl ErrPartitionNotFound)"

definition in_partition :: "int64 \<Rightarrow> int64 \<Rightarrow> segment \<Rightarrow> bool" where
  "in_partition cid pid s \<longleftrightarrow> seg_CollectionID s = cid \<and> seg_PartitionID s = pid"

text \<open>
  Modelled from the spec: the tie-break of section 4.2, "pick the one with the largest
  InsertedBinarySize (bin-packing), breaking ties by smallest segment id".
\<close>

definition preferred :: "segment \<Rightarrow> segment \<Rightarrow> segment" where
  "preferred a b =
     (if seg_InsertedBinarySize a < seg_InsertedBinarySize b
         \<or> (seg_InsertedBinarySize a = seg_InsertedBinarySize b \<and> sint (seg_ID b) < sint (seg_ID a))
      then b else a)"

fun pick_segment :: "segment list \<Rightarrow> segment option" where
  "pick_segment [] = None"
| "pick_segment (s # ss) = Some (fold (\<lambda>b a. preferred a b) ss s)"

text \<open>
  Modelled from the spec: the charge of an insert on the chosen segment
  (\<^verbatim>\<open>addInsert\<close> and \<^verbatim>\<open>incOutstanding\<close>, section 4.1), the reference of the transaction
  that writes, and the result handed to the caller (section 3).
\<close>

definition add_txn_ref :: "txn_session option \<Rightarrow> txn_session list \<Rightarrow> txn_session list" where
  "add_txn_ref txn refs =
     (case txn of None \<Rightarrow> refs | Some t \<Rightarrow> if t \<in> set refs then refs else t # refs)"

definition charge ::
  "assign_segment_request \<Rightarrow> int64 \<Rightarrow> pchannel_manager \<Rightarrow> (error + assign_segment_result) \<times> pchannel_manager" where
  "charge req sid m =
     (let m1 = update_segment sid
                 (\<lambda>x. x\<lparr>seg_InsertedRows := seg_InsertedRows x + unat (im_Rows (req_InsertMetrics req)),
                        seg_InsertedBinarySize :=
                          seg_InsertedBinarySize x + unat (im_BinarySize (req_InsertMetrics req)),
                        seg_TxnRefs := add_txn_ref (req_TxnSession req) (seg_TxnRefs x)\<rparr>) m;
          m2 = m1\<lparr>unacked := (next_handle m, sid) # unacked m, next_handle := Suc (next_handle m)\<rparr>
      in (Inr \<lparr>res_SegmentID = sid, res_Handle = next_handle m\<rparr>,
          see_tick (req_CollectionID req) (req_TimeTick req) m2))"

text \<open>
  Modelled from the spec: the allocation of a new growing segment (section 4.2): an id
  from the allocator, the CreateSegment message appended through the log, whose time
  tick becomes the CreateTimestamp, and the segment published into the growing set.
\<close>

definition allocate_segment ::
  "manager_env \<Rightarrow> int64 \<Rightarrow> int64 \<Rightarrow> string \<Rightarrow> pchannel_manager \<Rightarrow> int64 \<times> pchannel_manager" where
  "allocate_segment env cid pid vch m =
     (let sid = next_segment_id m in
      case wal_append env (CreateSegmentMessage cid pid sid (MaxBinarySize env))
             (m\<lparr>next_segment_id := sid + 1\<rparr>) of
        (t, m1) \<Rightarrow>
          (sid,
           see_tick cid t
             (m1\<lparr>segments := segments m1 @
                   [\<lparr>seg_ID = sid, seg_CollectionID = cid, seg_PartitionID = pid, seg_VChannel = vch,
                     seg_State = Growing, seg_MaxBinarySize = MaxBinarySize env, seg_InsertedRows = 0,
                     seg_InsertedBinarySize = 0, seg_CreateTimestamp = t, seg_TxnRefs = []\<rparr>]\<rparr>)))"

text \<open>
  Modelled from the spec: \<^verbatim>\<open>AssignSegment\<close> of the partition manager (section 4.2). A
  request whose binary size alone exceeds MaxBinarySize is refused. A growing segment
  that the last assign pushed over its seal proportion "must transition to Sealed
  before servicing the next assign" (section 3). Among the growing segments that have
  room for the request the tie-break chooses; when none has room, the current growing
  segment (the tie-break's choice among all growing ones) is sealed and a new one is
  allocated.
\<close>

definition partition_assign ::
  "manager_env \<Rightarrow> assign_segment_request \<Rightarrow> string \<Rightarrow> pchannel_manager
     \<Rightarrow> (error + assign_segment_result) \<times> pchannel_manager" where
  "partition_assign env req vch m =
     (let cid = req_CollectionID req; pid = req_PartitionID req;
          bin = unat (im_BinarySize (req_InsertMetrics req))
      in if bin > MaxBinarySize env then (Inl ErrTooLargeInsert, m)
         else
           (let m1 = mark_sealed (\<lambda>s. in_partition cid pid s \<and> isFull env s) m;
                growing = filter (\<lambda>s. in_partition cid pid s \<and> seg_State s = Growing) (segments m1);
                eligible = filter (\<lambda>s. seg_InsertedBinarySize s + bin \<le> seg_MaxBinarySize s) growing
            in case pick_segment eligible of
                 Some s \<Rightarrow> charge req (seg_ID s) m1
               | None \<Rightarrow>
                   (let m2 = (case pick_segment growing of
                                None \<Rightarrow> m1
                              | Some c \<Rightarrow> mark_sealed (\<lambda>x. seg_ID x = seg_ID c) m1)
                    in case allocate_segment env cid pid vch m2 of
                         (sid, m3) \<Rightarrow> charge req sid m3)))"

text \<open>
  Modelled from the spec: the fence table maps a collection to its max-fenced time
  tick; "any assign with time-tick \<le> fence is rejected" (section 3).
\<close>

definition fenced :: "pchannel_manager \<Rightarrow> int64 \<Rightarrow> uint64 \<Rightarrow> bool" where
  "fenced m cid t \<longleftrightarrow> (case fence m cid of None \<Rightarrow> False | Some f \<Rightarrow> t \<le> f)"

text \<open>
  Modelled from the spec: \<^verbatim>\<open>AssignSegment\<close> of the channel manager "validates
  collection/partition exist, time-tick \<ge> watermark, time-tick > fence[cid]; dispatches
  to partition manager" (section 4.3), in the order of that sentence.
\<close>

definition AssignSegment_spec ::
  "manager_env \<Rightarrow> assign_segment_request \<Rightarrow> pchannel_manager
     \<Rightarrow> (error + assign_segment_result) \<times> pchannel_manager" where
  "AssignSegment_spec env req m =
     (case lookup_partition m (req_CollectionID req) (req_PartitionID req) of
        Inl err \<Rightarrow> (Inl err, m)
      | Inr vch \<Rightarrow>
          if req_TimeTick req < watermark_of m (req_CollectionID req) then (Inl ErrTimeTickTooOld, m)
          else if fenced m (req_CollectionID req) (req_TimeTick req) then (Inl ErrFencedAssign, m)
          else partition_assign env req vch m)"

text \<open>
  Modelled from the spec: \<^verbatim>\<open>Ack\<close> releases the outstanding reference, "exactly once;
  subsequent calls are no-ops" (section 6).
\<close>

definition Ack_spec :: "assign_segment_result \<Rightarrow> pchannel_manager \<Rightarrow> pchannel_manager" where
  "Ack_spec res m = m\<lparr>unacked := filter (\<lambda>hs. fst hs \<noteq> res_Handle res) (unacked m)\<rparr>"

text \<open>
  Modelled from the spec: the transaction manager, by its contract (section 1): a
  transaction is open from its begin to its commit.
\<close>

definition BeginTxn :: "txn_session \<Rightarrow> pchannel_manager \<Rightarrow> pchannel_manager" where
  "BeginTxn t m = m\<lparr>open_txns := t # open_txns m\<rparr>"

definition CommitTxn :: "txn_session \<Rightarrow> pchannel_manager \<Rightarrow> pchannel_manager" where
  "CommitTxn t m = m\<lparr>open_txns := removeAll t (open_txns m)\<rparr>"

subsection \<open>Collections, partitions and the fence\<close>

text \<open>Modelled from the spec: \<^verbatim>\<open>NewCollection\<close> "creates partition managers; idempotent" (section 4.3).\<close>

definition NewCollection_spec ::
  "int64 \<Rightarrow> string \<Rightarrow> int64 list \<Rightarrow> pchannel_manager \<Rightarrow> pchannel_manager" where
  "NewCollection_spec cid vch pids m =
     (case collections m cid of
        Some entry \<Rightarrow> m
      | None \<Rightarrow> m\<lparr>collections := (collections m)(cid \<mapsto> (vch, pids))\<rparr>)"

text \<open>Modelled from the spec: \<^verbatim>\<open>NewPartition\<close> "requires collection exists; idempotent" (section 4.3).\<close>

definition NewPartition_spec ::
  "int64 \<Rightarrow> int64 \<Rightarrow> pchannel_manager \<Rightarrow> error option \<times> pchannel_manager" where
  "NewPartition_spec cid pid m =
     (case collections m cid of
        None \<Rightarrow> (Some ErrCollectionNotFound, m)
      | Some (vch, pids) \<Rightarrow>
          if pid \<in> set pids then (None, m)
          else (None, m\<lparr>collections := (collections m)(cid \<mapsto> (vch, pids @ [pid]))\<rparr>))"

text \<open>
  Modelled from the spec: a suspension point (section 5). An operation that waits for
  the drain of some segments returns when none of them is left to flush, or with the
  context's error when the context is cancelled first; the flushes themselves are the
  inspector's pass \<open>TryToSealWaitedSegment\<close>. In a sequential run nobody else acks or
  commits, so a wait that the inspector's pass cannot end and the context does not cut
  never returns: the operation's value is \<open>None\<close>.
\<close>

definition undrained :: "(segment \<Rightarrow> bool) \<Rightarrow> pchannel_manager \<Rightarrow> bool" where
  "undrained P m \<longleftrightarrow> (\<exists>s \<in> set (segments m). P s \<and> seg_State s \<noteq> Flushed)"

text \<open>
  Modelled from the spec: \<^verbatim>\<open>RemoveCollection\<close> "seals all segments in all partitions;
  deletes collection entry once drained" (section 4.3).
\<close>

definition RemoveCollection_spec ::
  "manager_env \<Rightarrow> Context \<Rightarrow> int64 \<Rightarrow> pchannel_manager \<Rightarrow> (error option \<times> pchannel_manager) option" where
  "RemoveCollection_spec env ctx cid m =
     (let mine = (\<lambda>s. seg_CollectionID s = cid);
          m1 = mark_sealed mine m
      in if \<not> undrained mine m1 then Some (None, m1\<lparr>collections := (collections m1)(cid := None)\<rparr>)
         else if Done ctx then Some (Some Canceled, m1)
         else (let m2 = TryToSealWaitedSegment env m1
               in if \<not> undrained mine m2
                  then Some (None, m2\<lparr>collections := (collections m2)(cid := None)\<rparr>)
                  else None))"

text \<open>
  Modelled from the spec: \<^verbatim>\<open>RemovePartition\<close> "seals all segments in the partition and
  deletes the manager once drained" (section 4.3).
\<close>

definition drop_partition :: "int64 \<Rightarrow> int64 \<Rightarrow> pchannel_manager \<Rightarrow> pchannel_manager" where
  "drop_partition cid pid m =
     (case collections m cid of
        None \<Rightarrow> m
      | Some (vch, pids) \<Rightarrow> m\<lparr>collections := (collections m)(cid \<mapsto> (vch, removeAll pid pids))\<rparr>)"

definition RemovePartition_spec ::
  "manager_env \<Rightarrow> Context \<Rightarrow> int64 \<Rightarrow> int64 \<Rightarrow> pchannel_manager
     \<Rightarrow> (error option \<times> pchannel_manager) option" where
  "RemovePartition_spec env ctx cid pid m =
     (let m1 = mark_sealed (in_partition cid pid) m
      in if \<not> undrained (in_partition cid pid) m1 then Some (None, drop_partition cid pid m1)
         else if Done ctx then Some (Some Canceled, m1)
         else (let m2 = TryToSealWaitedSegment env m1
               in if \<not> undrained (in_partition cid pid) m2
                  then Some (None, drop_partition cid pid m2)
                  else None))"

text \<open>
  Modelled from the spec: \<^verbatim>\<open>SealAndFenceSegmentUntil\<close> "raises fence[cid] to ts; seals
  every segment in the collection whose CreateTimestamp \<le> ts; blocks until each such
  segment becomes Flushed or ctx cancels (returns context.DeadlineExceeded if not)"
  (section 4.3). The ids returned are those of the segments the fence sealed (section
  6); with the error there are none. The result is the pair of the Go function.
\<close>

definition raise_fence :: "int64 \<Rightarrow> uint64 \<Rightarrow> pchannel_manager \<Rightarrow> pchannel_manager" where
  "raise_fence cid ts m =
     m\<lparr>fence := (fence m)(cid \<mapsto> (case fence m cid of None \<Rightarrow> ts | Some f \<Rightarrow> max f ts))\<rparr>"

definition SealAndFenceSegmentUntil_spec ::
  "manager_env \<Rightarrow> Context \<Rightarrow> int64 \<Rightarrow> uint64 \<Rightarrow> pchannel_manager
     \<Rightarrow> ((int64 list \<times> error option) \<times> pchannel_manager) option" where
  "SealAndFenceSegmentUntil_spec env ctx cid ts m =
     (let until = (\<lambda>s. seg_CollectionID s = cid \<and> seg_CreateTimestamp s \<le> ts);
          m1 = raise_fence cid ts m;
          ids = map seg_ID (filter (\<lambda>s. until s \<and> seg_State s = Growing) (segments m1));
          m2 = mark_sealed until m1
      in if \<not> undrained until m2 then Some ((ids, None), m2)
         else if Done ctx then Some (([], Some DeadlineExceeded), m2)
         else (let m3 = TryToSealWaitedSegment env m2
               in if \<not> undrained until m3 then Some ((ids, None), m3) else None))"

subsection \<open>Recovery\<close>

text \<open>Modelled from the spec: the persisted record of a segment (section 6).\<close>

record segment_assignment_stat =
  st_MaxBinarySize :: uint64
  st_InsertedRows :: uint64
  st_InsertedBinarySize :: uint64
  st_CreateTimestamp :: uint64
  st_LastModifiedTimestamp :: uint64

record segment_assignment_meta =
  meta_CollectionId :: int64
  meta_PartitionId :: int64
  meta_SegmentId :: int64
  meta_Vchannel :: string
  meta_State :: segment_state
  meta_Stat :: "segment_assignment_stat option"

text \<open>
  Modelled from the spec: a segment from its persisted record. A record without stat
  has no inserts yet and gets the configured limit.
\<close>

definition segment_of_meta :: "manager_env \<Rightarrow> segment_assignment_meta \<Rightarrow> segment" where
  "segment_of_meta env meta =
     \<lparr>seg_ID = meta_SegmentId meta, seg_CollectionID = meta_CollectionId meta,
      seg_PartitionID = meta_PartitionId meta, seg_VChannel = meta_Vchannel meta,
      seg_State = meta_State meta,
      seg_MaxBinarySize = (case meta_Stat meta of None \<Rightarrow> MaxBinarySize env | Some st \<Rightarrow> unat (st_MaxBinarySize st)),
      seg_InsertedRows = (case meta_Stat meta of None \<Rightarrow> 0 | Some st \<Rightarrow> unat (st_InsertedRows st)),
      seg_InsertedBinarySize = (case meta_Stat meta of None \<Rightarrow> 0 | Some st \<Rightarrow> unat (st_InsertedBinarySize st)),
      seg_CreateTimestamp = (case meta_Stat meta of None \<Rightarrow> 0 | Some st \<Rightarrow> st_CreateTimestamp st),
      seg_TxnRefs = []\<rparr>"

text \<open>
  Modelled from the spec: step 3 of the recovery (section 4.7). "Segments in Pending are
  re-announced (Create message re-appended through the WAL)"; "segments in Sealed have
  their flush re-announced"; "segments in Growing are ready for service".
\<close>

definition restore_segment :: "manager_env \<Rightarrow> segment_assignment_meta \<Rightarrow> pchannel_manager \<Rightarrow> pchannel_manager" where
  "restore_segment env meta m =
     (let s = segment_of_meta env meta in
      case meta_State meta of
        Pending \<Rightarrow>
          (case wal_append env
                  (CreateSegmentMessage (seg_CollectionID s) (seg_PartitionID s) (seg_ID s) (seg_MaxBinarySize s)) m of
             (t, m1) \<Rightarrow>
               see_tick (seg_CollectionID s) t
                 (m1\<lparr>segments := segments m1 @ [s\<lparr>seg_State := Growing, seg_CreateTimestamp := t\<rparr>]\<rparr>))
      | Growing \<Rightarrow> m\<lparr>segments := segments m @ [s]\<rparr>
      | Sealed \<Rightarrow> announce_flush env s (m\<lparr>segments := segments m @ [s\<lparr>seg_State := Flushed\<rparr>]\<rparr>)
      | Flushed \<Rightarrow> m\<lparr>segments := segments m @ [s]\<rparr>)"

text \<open>
  Modelled from the spec: \<^verbatim>\<open>RecoverPChannelSegmentAllocManager\<close> (section 4.7), from the
  collections of the channel (with their virtual channel and partitions), the
  persisted records and the first id the allocator will hand out. The fence table is
  empty at cold start.
\<close>

definition RecoverPChannelSegmentAllocManager ::
  "manager_env \<Rightarrow> (int64 \<times> string \<times> int64 list) list \<Rightarrow> segment_assignment_meta list \<Rightarrow> int64
     \<Rightarrow> pchannel_manager" where
  "RecoverPChannelSegmentAllocManager env colls metas id0 =
     fold (restore_segment env) metas
       \<lparr>collections = map_of colls, segments = [], fence = Map.empty, watermark = Map.empty,
        unacked = [], next_handle = 0, next_segment_id = id0, wal_messages = [],
        open_txns = [], synced_binlogs = (\<lambda>sid. 0)\<rparr>"

subsection \<open>The fixture of the manager's tests\<close>

text \<open>
  \<^verbatim>\<open>initializeTestState\<close> of the test file: one collection with three partitions, six
  persisted segments, a segment limit of 1 MB and a seal proportion of 1.0 without
  jitter. \<^verbatim>\<open>newStat\<close> stamps the records with \<^verbatim>\<open>time.Now().Unix()\<close>, here the argument
  \<open>now\<close>. The mocked log returns the same time tick for every append.
\<close>

definition newStat :: "uint64 \<Rightarrow> uint64 \<Rightarrow> uint64 \<Rightarrow> segment_assignment_stat" where
  "newStat now insertedBinarySize maxBinarySize =
     \<lparr>st_MaxBinarySize = maxBinarySize, st_InsertedRows = insertedBinarySize,
      st_InsertedBinarySize = insertedBinarySize, st_CreateTimestamp = now,
      st_LastModifiedTimestamp = now\<rparr>"

definition fixture_collections :: "(int64 \<times> string \<times> int64 list) list" where
  "fixture_collections = [(1, [], [1, 2, 3])]"

definition fixture_metas :: "uint64 \<Rightarrow> segment_assignment_meta list" where
  "fixture_metas now =
     [\<lparr>meta_CollectionId = 1, meta_PartitionId = 1, meta_SegmentId = 1000, meta_Vchannel = ''v1'',
       meta_State = Pending, meta_Stat = None\<rparr>,
      \<lparr>meta_CollectionId = 1, meta_PartitionId = 2, meta_SegmentId = 2000, meta_Vchannel = ''v1'',
       meta_State = Growing, meta_Stat = Some (newStat now 1000 1000)\<rparr>,
      \<lparr>meta_CollectionId = 1, meta_PartitionId = 2, meta_SegmentId = 3000, meta_Vchannel = ''v1'',
       meta_State = Growing, meta_Stat = Some (newStat now 100 1000)\<rparr>,
      \<lparr>meta_CollectionId = 1, meta_PartitionId = 2, meta_SegmentId = 4000, meta_Vchannel = ''v1'',
       meta_State = Sealed, meta_Stat = Some (newStat now 900 1000)\<rparr>,
      \<lparr>meta_CollectionId = 1, meta_PartitionId = 2, meta_SegmentId = 5000, meta_Vchannel = ''v1'',
       meta_State = Growing, meta_Stat = Some (newStat now 900 1000)\<rparr>,
      \<lparr>meta_CollectionId = 1, meta_PartitionId = 3, meta_SegmentId = 6000, meta_Vchannel = ''v1'',
       meta_State = Growing, meta_Stat = Some (newStat now 100 1000)\<rparr>]"

definition fixture_env :: "nat \<Rightarrow> uint64 \<Rightarrow> manager_env" where
  "fixture_env threshold tick =
     \<lparr>MaxBinarySize = 1024 * 1024, SealProportionNum = 1, SealProportionDen = 1,
      BinlogCounterThreshold = threshold, WalTimeTick = (\<lambda>n. tick)\<rparr>"


definition fixture_manager :: "nat \<Rightarrow> uint64 \<Rightarrow> uint64 \<Rightarrow> int64 \<Rightarrow> pchannel_manager" where
  "fixture_manager threshold tick now id0 =
     RecoverPChannelSegmentAllocManager (fixture_env threshold tick) fixture_collections (fixture_metas now) id0"

subsection \<open>Runs of the manager\<close>

text \<open>
  Modelled from the spec: the public operations of section 4.3, with the acks, the
  transaction boundaries and the sync feedback that reach the manager from outside,
  as one step function. A step that never returns has no next state.
\<close>

datatype manager_op =
    OpAssignSegment assign_segment_request
  | OpAck assign_segment_result
  | OpTryToSealSegments "segment_belongs list"
  | OpTryToSealWaitedSegment
  | OpNewCollection int64 string "int64 list"
  | OpNewPartition int64 int64
  | OpRemoveCollection Context int64
  | OpRemovePartition Context int64 int64
  | OpSealAndFenceSegmentUntil Context int64 uint64
  | OpBeginTxn txn_session
  | OpCommitTxn txn_session
  | OpUpdateOnSync int64 nat

fun apply_op :: "manager_env \<Rightarrow> manager_op \<Rightarrow> pchannel_manager \<Rightarrow> pchannel_manager option" where
  "apply_op env (OpAssignSegment req) m = Some (snd (AssignSegment_spec env req m))"
| "apply_op env (OpAck res) m = Some (Ack_spec res m)"
| "apply_op env (OpTryToSealSegments hints) m = Some (TryToSealSegments env hints m)"
| "apply_op env OpTryToSealWaitedSegment m = Some (TryToSealWaitedSegment env m)"
| "apply_op env (OpNewCollection cid vch pids) m = Some (NewCollection_spec cid vch pids m)"
| "apply_op env (OpNewPartition cid pid) m = Some (snd (NewPartition_spec cid pid m))"
| "apply_op env (OpRemoveCollection ctx cid) m = map_option snd (RemoveCollection_spec env ctx cid m)"
| "apply_op env (OpRemovePartition ctx cid pid) m = map_option snd (RemovePartition_spec env ctx cid pid m)"
| "apply_op env (OpSealAndFenceSegmentUntil ctx cid ts) m =
     map_option snd (SealAndFenceSegmentUntil_spec env ctx cid ts m)"
| "apply_op env (OpBeginTxn t) m = Some (BeginTxn t m)"
| "apply_op env (OpCommitTxn t) m = Some (CommitTxn t m)"
| "apply_op env (OpUpdateOnSync sid delta) m = Some (UpdateOnSync sid delta m)"

fun run_ops :: "manager_env \<Rightarrow> manager_op list \<Rightarrow> pchannel_manager \<Rightarrow> pchannel_manager option" where
  "run_ops env [] m = Some m"
| "run_ops env (op # ops) m =
     (case apply_op env op m of None \<Rightarrow> None | Some m1 \<Rightarrow> run_ops env ops m1)"

section \<open>Auxiliary notions for the statements\<close>




text \<open>The interval before retry \<open>i\<close>, and a timer of the recovery loop that has handed out \<open>c\<close> intervals.\<close>

definition retry_interval :: "nat \<Rightarrow> duration" where
  "retry_interval i = min (10 * Millisecond * 2 ^ i) Second"

definition armed :: "backoff_timer \<Rightarrow> nat \<Rightarrow> bool" where
  "armed t c \<longleftrightarrow> bt_enabled t \<and> bt_config t = recover_timer_config \<and> bt_retries t = c"

text \<open>
  A manager and a log for concrete runs of the interceptor. The manager records the
  calls it receives and answers \<^verbatim>\<open>AssignSegment\<close> and \<^verbatim>\<open>SealAndFenceSegmentUntil\<close> from
  two given functions; the log records the messages appended to it.
\<close>

datatype manager_call =
    CalledNewCollection int64 string "int64 list"
  | CalledNewPartition int64 int64
  | CalledRemoveCollection int64
  | CalledRemovePartition int64 int64
  | CalledAssignSegment assign_segment_request
  | CalledSealAndFenceSegmentUntil int64 uint64
  | CalledAck assign_segment_result

definition recording_manager ::
  "(assign_segment_request \<Rightarrow> error + int64) \<Rightarrow> (int64 \<Rightarrow> uint64 \<Rightarrow> error + int64 list)
     \<Rightarrow> manager_call list manager_ops" where
  "recording_manager assign seal =
     \<lparr>NewCollection = (\<lambda>cid vch pids calls. calls @ [CalledNewCollection cid vch pids]),
      NewPartition = (\<lambda>cid pid calls. (None, calls @ [CalledNewPartition cid pid])),
      RemoveCollection = (\<lambda>ctx cid calls. (None, calls @ [CalledRemoveCollection cid])),
      RemovePartition = (\<lambda>ctx cid pid calls. (None, calls @ [CalledRemovePartition cid pid])),
      AssignSegment = (\<lambda>ctx req calls.
        (case assign req of
           Inl err \<Rightarrow> Inl err
         | Inr sid \<Rightarrow> Inr \<lparr>res_SegmentID = sid, res_Handle = length calls\<rparr>,
         calls @ [CalledAssignSegment req])),
      SealAndFenceSegmentUntil = (\<lambda>ctx cid ts calls.
        (seal cid ts, calls @ [CalledSealAndFenceSegmentUntil cid ts])),
      Ack = (\<lambda>res calls. calls @ [CalledAck res])\<rparr>"

definition recording_append :: "message list append_op" where
  "recording_append ctx msg appended = (Inr (length appended), appended @ [msg])"

definition failing_append :: "message list append_op" where
  "failing_append ctx msg appended = (Inl (ErrAppendFailure 1), appended)"

text \<open>Concrete inputs for the runs of the interceptor.\<close>

definition background :: Context where
  "background = \<lparr>TxnSession = None, Done = False\<rparr>"

definition timetick_message :: message where
  "timetick_message =
     \<lparr>MessageType = MessageTypeTimeTick, Version = 1, VChannel = ''v1'', TimeTick = 7,
      EstimateSize = 16, Header = OtherMessageHeader\<rparr>"

definition insert_message :: "int \<Rightarrow> message" where
  "insert_message n =
     \<lparr>MessageType = MessageTypeInsert, Version = 1, VChannel = ''v1'', TimeTick = 7,
      EstimateSize = n,
      Header = InsertMessageHeader 1
        [\<lparr>PartitionId = 1, Rows = 10, BinarySize = 0, SegmentAssignment = None\<rparr>,
         \<lparr>PartitionId = 2, Rows = 20, BinarySize = 0, SegmentAssignment = None\<rparr>]\<rparr>"

definition manual_flush_message :: message where
  "manual_flush_message =
     \<lparr>MessageType = MessageTypeManualFlush, Version = 2, VChannel = ''v1'', TimeTick = 9,
      EstimateSize = 16, Header = ManualFlushMessageHeader 1 8\<rparr>"

definition fresh_world :: "(manager_call list, message list) world" where
  "fresh_world = \<lparr>mgr = [], wal = [], extra = None\<rparr>"

text \<open>
  The answers of the recording manager: an insert above 1 MB is too large, partition 2
  is unknown, every other assignment goes to segment 1000; a fence on collection 1
  seals the segments 1000 and 7000.
\<close>

definition assign_script :: "assign_segment_request \<Rightarrow> error + int64" where
  "assign_script req =
     (if 1048576 < unat (im_BinarySize (req_InsertMetrics req)) then Inl ErrTooLargeInsert
      else if req_PartitionID req = 2 then Inl ErrPartitionNotFound
      else Inr 1000)"

definition seal_script :: "int64 \<Rightarrow> uint64 \<Rightarrow> error + int64 list" where
  "seal_script cid ts = (if cid = 1 then Inr [1000, 7000] else Inr [])"

definition recorder :: "manager_call list manager_ops" where
  "recorder = recording_manager assign_script seal_script"

text \<open>
  A recovery that fails three times and then yields the manager \<open>pm\<close>, with the
  context never cancelled.
\<close>

definition fourth_time_lucky :: "'m \<Rightarrow> 'm recover_env" where
  "fourth_time_lucky pm =
     \<lparr>attempt = (\<lambda>i. if i < 3 then Inl (ErrAppendFailure i) else Inr pm),
      wait = (\<lambda>i. TimerFired)\<rparr>"

section \<open>Properties of the interceptor\<close>

lemmas run_defs =
  DoAppend_def call_append_def recording_manager_def recording_append_def failing_append_def
  background_def timetick_message_def insert_message_def manual_flush_message_def fresh_world_def
  assign_script_def seal_script_def recorder_def AsMutableInsertMessageV1_def
  AsMutableManualFlushMessageV2_def insert_request_def

lemma errors_Is_sentinel_unique:
  "errors_Is e ErrTooLargeInsert \<Longrightarrow> \<not> errors_Is e ErrTimeTickTooOld"
  by (induction e) auto


text \<open>
  C10. A message whose type is none of CreateCollection, DropCollection,
  CreatePartition, DropPartition, Insert and ManualFlush goes to the append operation
  as it is, and the result of \<open>DoAppend\<close> is the result of that operation. The manager
  is not consulted: the outcome is the same for every manager; and it is not changed.
\<close>

theorem DoAppend_default_forwards:
  assumes "MessageType msg \<notin> {MessageTypeCreateCollection, MessageTypeDropCollection,
     MessageTypeCreatePartition, MessageTypeDropPartition, MessageTypeInsert, MessageTypeManualFlush}"
  shows "DoAppend ops appendOp ctx msg w =
           (fst (appendOp ctx msg (wal w)), w\<lparr>wal := snd (appendOp ctx msg (wal w))\<rparr>)
         \<and> mgr (snd (DoAppend ops appendOp ctx msg w)) = mgr w
         \<and> DoAppend ops appendOp ctx msg w = DoAppend ops' appendOp ctx msg w"
  using assms
  by (cases "MessageType msg") (simp_all add: DoAppend_def call_append_def split: prod.splits)

theorem DoAppend_default_forwards_witness:
  "MessageType timetick_message \<notin> {MessageTypeCreateCollection, MessageTypeDropCollection,
     MessageTypeCreatePartition, MessageTypeDropPartition, MessageTypeInsert, MessageTypeManualFlush}
   \<and> DoAppend recorder recording_append background timetick_message fresh_world
       = (Inr 0, \<lparr>mgr = [], wal = [timetick_message], extra = None\<rparr>)"
  using DoAppend_default_forwards [of timetick_message recorder recording_append background
          fresh_world recorder]
  by (simp add: run_defs)





end
